theory Spec2Isabelle
  imports Complex_Main "HOL-Library.Word" "HOL-Library.Multiset"
begin

section \<open>Data model of the worker service\<close>

text \<open>
  The worker service of rssant (\<^verbatim>\<open>rssant_worker/worker_service.py\<close>) composes a
  number of collaborators: the DNS service, the proxy helper, the feed readers, the raw
  parser, the checksum engine, the schema validators, the HTML processors and the RPC
  client.  The collaborators are parameters of the model (the fields of an environment
  record); the orchestration code is embedded function by function.  Effects that the
  service causes in its collaborators (transport reads, parser runs, RPC calls, the one
  log line of a rejected story) are collected, in program order, in a list of events.
\<close>

type_synonym bytes = "8 word list"

text \<open>\<^verbatim>\<open>FeedResponse\<close>: what a reader returns.\<close>

record feed_response =
  resp_status :: int
  resp_ok :: bool
  resp_content :: bytes
  resp_url :: "string option"
  resp_etag :: "string option"
  resp_last_modified :: "string option"
  resp_encoding :: string
  resp_use_proxy :: bool

text \<open>\<^verbatim>\<open>RawFeedResult\<close>, with the raw entries kept abstract.\<close>

record 'e raw_feed_result =
  raw_storys :: "'e list"
  raw_warnings :: "string list"

text \<open>The members of \<^verbatim>\<open>FeedStatus\<close> that the worker uses.\<close>

datatype feed_status = READY | UPDATING | ERROR

text \<open>
  The two exception classes the worker handles: \<^verbatim>\<open>validr.Invalid\<close> with
  \<^verbatim>\<open>args[0]\<close> and the remaining arguments, and \<^verbatim>\<open>FeedParserError\<close>.
  A collaborator either returns or raises one of these.
\<close>

datatype exn = Invalid string "string list" | FeedParserError string

text \<open>A story dictionary, before and after schema validation.\<close>

record story =
  story_link :: "string option"
  story_title :: "string option"
  story_dt_published :: int
  story_content :: "string option"

text \<open>The feed dictionary that \<^verbatim>\<open>_parse_found\<close> builds.\<close>

record feed =
  feed_use_proxy :: bool
  feed_url :: "string option"
  feed_content_length :: nat
  feed_content_hash_base64 :: string
  feed_etag :: "string option"
  feed_last_modified :: "string option"
  feed_encoding :: string
  feed_response_status :: int
  feed_title :: "string option"
  feed_link :: "string option"
  feed_author :: "string option"
  feed_icon :: "string option"
  feed_description :: "string option"
  feed_dt_updated :: "int option"
  feed_version :: "string option"
  feed_storys :: "story list"
  feed_checksum_data_base64 :: string
  feed_warnings :: "string option"

text \<open>The result of \<^verbatim>\<open>FeedParser(checksum).parse(raw_result)\<close>.\<close>

record parsed_feed =
  pf_title :: "string option"
  pf_home_url :: "string option"
  pf_author_name :: "string option"
  pf_icon_url :: "string option"
  pf_description :: "string option"
  pf_dt_updated :: "int option"
  pf_version :: "string option"

record ('c, 'e) feed_parse_result =
  fpr_feed :: parsed_feed
  fpr_storys :: "'e list"
  fpr_checksum :: 'c

text \<open>The arguments of one \<^verbatim>\<open>reader.read\<close> call.\<close>

record read_request =
  req_url :: string
  req_etag :: "string option"
  req_last_modified :: "string option"
  req_use_proxy :: bool

text \<open>
  The dictionary \<^verbatim>\<open>fetch_story\<close> returns (\<^verbatim>\<open>SCHEMA_FETCH_STORY_RESULT\<close>).
  An optional key that is absent, or present with value \<^verbatim>\<open>None\<close>, is \<open>None\<close>.
\<close>

record story_result =
  sr_feed_id :: int
  sr_offset :: int
  sr_url :: string
  sr_response_status :: "int option"
  sr_use_proxy :: "bool option"
  sr_content :: "string option"
  sr_summary :: "string option"
  sr_sentence_count :: "nat option"
  sr_accept :: "string option"

text \<open>The calls on \<^verbatim>\<open>SERVICE_CLIENT\<close>, with their payloads.\<close>

datatype sink_call =
    UpdateFeedCreationStatus int feed_status
  | SaveFeedCreationResult int "string list" "feed option"
  | UpdateFeedInfo int "feed_status option" int "string option"
  | UpdateFeed int feed bool
  | UpdateStory story_result

text \<open>
  The observable effects: a transport read, a run of the feed finder, a run of the raw
  parser, a run of the checksum engine, the error log line of a story that failed
  validation (the exception, the feed info, the story info), and a call on the sink.
\<close>

datatype event =
    Read read_request
  | Find string bool
  | RawParse feed_response
  | ChecksumParse
  | LogStoryInvalid exn "string option" "string option"
  | Sink sink_call

text \<open>
  The collaborators of the feed pipeline.  \<open>reader_has_proxy\<close> is the
  \<^verbatim>\<open>has_proxy\<close> of the reader built from the proxy options of a URL, and
  \<open>raw_parse\<close> returns the message of a \<^verbatim>\<open>FeedParserError\<close> on the left.
  \<open>reader_read\<close> takes the number of reads
  the reader has already served, so that the transport may answer the same request
  differently over time.  \<open>finder_find\<close> returns the messages the finder passed to
  the message handler together with what it found.
\<close>

record ('c, 'e) feed_env =
  is_resolved_url :: "string \<Rightarrow> bool"
  is_use_proxy_url :: "string \<Rightarrow> bool"
  reader_has_proxy :: "string \<Rightarrow> bool"
  reader_read :: "nat \<Rightarrow> read_request \<Rightarrow> feed_response"
  is_need_proxy :: "int \<Rightarrow> bool"
  compute_hash_base64 :: "bytes \<Rightarrow> string"
  raw_parse :: "feed_response \<Rightarrow> string + 'e raw_feed_result"
  base64_decode :: "string option \<Rightarrow> bytes"
  base64_encode :: "bytes \<Rightarrow> string"
  checksum_load :: "bytes \<Rightarrow> 'c"
  checksum_dump :: "'c \<Rightarrow> nat \<Rightarrow> bytes"
  feed_parse :: "'c option \<Rightarrow> 'e raw_feed_result \<Rightarrow> exn + ('c, 'e) feed_parse_result"
  get_story_of_feed_entry :: "'e \<Rightarrow> int \<Rightarrow> story"
  clock_now :: int
  validate_feed_schema :: "feed \<Rightarrow> exn + feed"
  validate_story_schema :: "story \<Rightarrow> exn + story"
  exn_str :: "exn \<Rightarrow> string"
  finder_find :: "string \<Rightarrow> bool \<Rightarrow> string list \<times> (feed_response \<times> 'e raw_feed_result) option"

section \<open>Python helpers\<close>

text \<open>Truthiness of an optional string: \<^verbatim>\<open>None\<close> and \<^verbatim>\<open>''\<close> are false.\<close>

fun truthy :: "string option \<Rightarrow> bool" where
  "truthy None = False"
| "truthy (Some s) = (s \<noteq> [])"

text \<open>\<^verbatim>\<open>a or b\<close> on optional strings.\<close>

definition py_or :: "string option \<Rightarrow> string option \<Rightarrow> string option" where
  "py_or a b = (if truthy a then a else b)"

text \<open>How an f-string prints an optional string.\<close>

fun py_format :: "string option \<Rightarrow> string" where
  "py_format None = ''None''"
| "py_format (Some s) = s"

text \<open>\<^verbatim>\<open>sep.join(xs)\<close>.\<close>

fun join_str :: "string \<Rightarrow> string list \<Rightarrow> string" where
  "join_str sep [] = []"
| "join_str sep [x] = x"
| "join_str sep (x # y # ys) = x @ sep @ join_str sep (y # ys)"

text \<open>
  \<^verbatim>\<open>sorted(xs, key=key, reverse=reverse)\<close>: the sort is stable, and with
  \<^verbatim>\<open>reverse=True\<close> elements with equal keys keep their original order, which is
  what reversing the list, sorting it stably and reversing the result gives.
\<close>

definition py_sorted :: "('a \<Rightarrow> int) \<Rightarrow> bool \<Rightarrow> 'a list \<Rightarrow> 'a list" where
  "py_sorted key reverse xs =
     (if reverse then rev (sort_key key (rev xs)) else sort_key key xs)"

section \<open>Validation\<close>

text \<open>
  \<^verbatim>\<open>validate_feed\<close>: the feed is validated first, and an \<^verbatim>\<open>Invalid\<close> is raised
  again with the feed info appended to its message.  Then every story of the validated
  feed is validated on its own; a story that fails is logged and left out.
\<close>

definition feed_info_of :: "feed \<Rightarrow> string option" where
  "feed_info_of f = py_or (py_or (feed_url f) (feed_link f)) (feed_title f)"

definition story_info_of :: "story \<Rightarrow> string option" where
  "story_info_of s = py_or (py_or (story_link s) (story_title s)) (story_link s)"

fun annotate :: "string option \<Rightarrow> exn \<Rightarrow> exn" where
  "annotate info (Invalid msg rest) = Invalid (msg @ '', feed='' @ py_format info) rest"
| "annotate info (FeedParserError msg) = FeedParserError msg"

fun validate_storys ::
  "('c, 'e) feed_env \<Rightarrow> string option \<Rightarrow> story list \<Rightarrow> event list \<times> story list" where
  "validate_storys env info [] = ([], [])"
| "validate_storys env info (s # ss) =
     (let (evs, storys) = validate_storys env info ss
      in case validate_story_schema env s of
           Inl ex \<Rightarrow> (LogStoryInvalid ex info (story_info_of s) # evs, storys)
         | Inr v \<Rightarrow> (evs, v # storys))"

definition validate_feed :: "('c, 'e) feed_env \<Rightarrow> feed \<Rightarrow> event list \<times> (exn + feed)" where
  "validate_feed env f =
     (let info = feed_info_of f
      in case validate_feed_schema env f of
           Inl ex \<Rightarrow> ([], Inl (annotate info ex))
         | Inr feed_data \<Rightarrow>
             (let (evs, storys) = validate_storys env info (feed_storys feed_data)
              in (evs, Inr (feed_data\<lparr>feed_storys := storys\<rparr>))))"

section \<open>Result normalisation\<close>

definition get_storys :: "('c, 'e) feed_env \<Rightarrow> 'e list \<Rightarrow> story list" where
  "get_storys env entries =
     (let now = clock_now env;
          storys = map (\<lambda>data. get_story_of_feed_entry env data now) entries
      in py_sorted story_dt_published True storys)"

definition parse_found ::
  "('c, 'e) feed_env \<Rightarrow> feed_response \<times> 'e raw_feed_result \<Rightarrow> string option \<Rightarrow> bool
     \<Rightarrow> event list \<times> (exn + feed)" where
  "parse_found env found checksum_data_base64 is_refresh =
     (let (response, raw_result) = found;
          checksum_data = base64_decode env checksum_data_base64;
          checksum = (if checksum_data \<noteq> [] \<and> \<not> is_refresh
                      then Some (checksum_load env checksum_data) else None)
      in case feed_parse env checksum raw_result of
           Inl ex \<Rightarrow> ([ChecksumParse], Inl ex)
         | Inr result \<Rightarrow>
             (let checksum_data = checksum_dump env (fpr_checksum result) 300;
                  warnings = (if raw_warnings raw_result \<noteq> []
                              then Some (join_str ''; '' (raw_warnings raw_result)) else None);
                  f = \<lparr> feed_use_proxy = resp_use_proxy response,
                        feed_url = resp_url response,
                        feed_content_length = length (resp_content response),
                        feed_content_hash_base64 = compute_hash_base64 env (resp_content response),
                        feed_etag = resp_etag response,
                        feed_last_modified = resp_last_modified response,
                        feed_encoding = resp_encoding response,
                        feed_response_status = resp_status response,
                        feed_title = pf_title (fpr_feed result),
                        feed_link = pf_home_url (fpr_feed result),
                        feed_author = pf_author_name (fpr_feed result),
                        feed_icon = pf_icon_url (fpr_feed result),
                        feed_description = pf_description (fpr_feed result),
                        feed_dt_updated = pf_dt_updated (fpr_feed result),
                        feed_version = pf_version (fpr_feed result),
                        feed_storys = get_storys env (fpr_storys result),
                        feed_checksum_data_base64 = base64_encode env checksum_data,
                        feed_warnings = warnings \<rparr>;
                  (evs, r) = validate_feed env f
              in (ChecksumParse # evs, r)))"

section \<open>Feed discovery and synchronisation\<close>

text \<open>
  \<^verbatim>\<open>find_feed\<close>.  The message handler appends to \<^verbatim>\<open>messages\<close>; the finder's own
  messages come first, the message of a caught exception last.
\<close>

definition find_feed :: "('c, 'e) feed_env \<Rightarrow> int \<Rightarrow> string \<Rightarrow> event list" where
  "find_feed env feed_creation_id url =
     (let use_proxy = is_use_proxy_url env url;
          (messages, found) = finder_find env url use_proxy;
          (evs, messages, f) =
             (case found of
                None \<Rightarrow> ([], messages, None)
              | Some fnd \<Rightarrow>
                  (case parse_found env fnd None False of
                     (evs, Inl ex) \<Rightarrow>
                        (evs, messages @ [''invalid feed: '' @ exn_str env ex], None)
                   | (evs, Inr f) \<Rightarrow> (evs, messages, Some f)))
      in [Sink (UpdateFeedCreationStatus feed_creation_id UPDATING), Find url use_proxy]
         @ evs @ [Sink (SaveFeedCreationResult feed_creation_id messages f)])"

text \<open>
  The proxy decision of \<^verbatim>\<open>sync_feed\<close>, lines 149 to 157; \<open>rnd\<close> is the value that
  \<^verbatim>\<open>random.random()\<close> returns when it is called.
\<close>

definition proxy_decision :: "('c, 'e) feed_env \<Rightarrow> real \<Rightarrow> string \<Rightarrow> bool \<Rightarrow> bool" where
  "proxy_decision env rnd url use_proxy =
     (let use_proxy = (if is_resolved_url env url then False else use_proxy);
          switch_prob = 0.25;
          use_proxy = (reader_has_proxy env url \<and> use_proxy);
          use_proxy = (if use_proxy \<and> rnd < switch_prob then False else use_proxy);
          use_proxy = (if is_use_proxy_url env url then True else use_proxy)
      in use_proxy)"

text \<open>
  The reads of \<^verbatim>\<open>sync_feed\<close>: the first read, and the one retry through the proxy.
  Returns the reads made and the response that is processed.
\<close>

definition sync_read ::
  "('c, 'e) feed_env \<Rightarrow> real \<Rightarrow> string \<Rightarrow> bool \<Rightarrow> string option \<Rightarrow> string option \<Rightarrow> bool
     \<Rightarrow> event list \<times> feed_response" where
  "sync_read env rnd url use_proxy etag last_modified is_refresh =
     (let (p_etag, p_last_modified) =
            (if \<not> is_refresh then (etag, last_modified) else (None, None));
          use_proxy = proxy_decision env rnd url use_proxy;
          req = \<lparr> req_url = url, req_etag = p_etag, req_last_modified = p_last_modified,
                  req_use_proxy = use_proxy \<rparr>;
          response = reader_read env 0 req;
          need_proxy = is_need_proxy env (resp_status response)
      in if \<not> use_proxy \<and> reader_has_proxy env url \<and> need_proxy
         then (let req2 = req\<lparr>req_use_proxy := True\<rparr>;
                   proxy_response = reader_read env 1 req2
               in ([Read req, Read req2],
                   if resp_ok proxy_response then proxy_response else response))
         else ([Read req], response))"

definition sync_feed ::
  "('c, 'e) feed_env \<Rightarrow> real \<Rightarrow> int \<Rightarrow> string \<Rightarrow> bool \<Rightarrow> string option \<Rightarrow> string option
     \<Rightarrow> string option \<Rightarrow> string option \<Rightarrow> bool \<Rightarrow> event list" where
  "sync_feed env rnd feed_id url use_proxy checksum_data_base64 content_hash_base64
       etag last_modified is_refresh =
     (let (reads, response) = sync_read env rnd url use_proxy etag last_modified is_refresh
      in if \<not> resp_ok response \<or> resp_content response = []
         then (let status = (if resp_status response = 304 then READY else ERROR)
               in reads @ [Sink (UpdateFeedInfo feed_id (Some status) (resp_status response) None)])
         else (let new_hash = compute_hash_base64 env (resp_content response)
               in if \<not> is_refresh \<and> Some new_hash = content_hash_base64
                  then reads @ [Sink (UpdateFeedInfo feed_id None (resp_status response) None)]
                  else (case raw_parse env response of
                          Inl msg \<Rightarrow>
                            reads @ [RawParse response,
                                     Sink (UpdateFeedInfo feed_id (Some ERROR) (resp_status response)
                                             (Some (exn_str env (FeedParserError msg))))]
                        | Inr raw_result \<Rightarrow>
                            (case parse_found env (response, raw_result) checksum_data_base64
                                    is_refresh of
                               (evs, Inl ex) \<Rightarrow>
                                 reads @ RawParse response # evs @
                                   [Sink (UpdateFeedInfo feed_id (Some ERROR)
                                            (resp_status response) (Some (exn_str env ex)))]
                             | (evs, Inr f) \<Rightarrow>
                                 reads @ RawParse response # evs @
                                   [Sink (UpdateFeed feed_id f is_refresh)]))))"

section \<open>Story fetch\<close>

definition MAX_STORY_HTML_LENGTH :: nat where
  "MAX_STORY_HTML_LENGTH = 5 * 1000 * 1024"

definition MAX_STORY_CONTENT_LENGTH :: nat where
  "MAX_STORY_CONTENT_LENGTH = 1000 * 1024"

definition MAX_STORY_SUMMARY_LENGTH :: nat where
  "MAX_STORY_SUMMARY_LENGTH = 300"

text \<open>
  The collaborators of the story pipeline.  \<open>decode_strict\<close> is
  \<^verbatim>\<open>bytes.decode(encoding)\<close>, with \<open>None\<close> for a \<^verbatim>\<open>UnicodeError\<close>;
  \<open>decode_ignore\<close> is the same with \<^verbatim>\<open>errors='ignore'\<close>.  \<open>'i\<close> is
  \<^verbatim>\<open>StoryContentInfo\<close>.  \<open>shorten\<close> is \<^verbatim>\<open>rssant_api.helper.shorten\<close>, and
  \<open>update_story\<close> is what the sink answers under the key \<^verbatim>\<open>accept\<close>.
\<close>

record 'i story_env =
  dns_is_resolved_url :: "string \<Rightarrow> bool"
  async_has_proxy :: "string \<Rightarrow> bool"
  async_read :: "nat \<Rightarrow> read_request \<Rightarrow> feed_response"
  decode_strict :: "bytes \<Rightarrow> string \<Rightarrow> string option"
  decode_ignore :: "bytes \<Rightarrow> string \<Rightarrow> string"
  get_html_redirect_url :: "string \<Rightarrow> string option"
  story_html_clean :: "string \<Rightarrow> string"
  story_html_to_text :: "string \<Rightarrow> string"
  story_readability :: "string \<Rightarrow> string"
  process_story_links :: "string \<Rightarrow> string \<Rightarrow> string"
  story_content_info :: "string \<Rightarrow> 'i"
  info_text :: "'i \<Rightarrow> string"
  is_fulltext_content :: "'i \<Rightarrow> bool"
  shorten :: "string \<Rightarrow> nat \<Rightarrow> string"
  split_sentences :: "string \<Rightarrow> string list"
  update_story :: "story_result \<Rightarrow> string option"

text \<open>
  \<^verbatim>\<open>str.strip()\<close>: the characters below \<^verbatim>\<open>U+0100\<close> for which
  \<^verbatim>\<open>str.isspace\<close> holds are removed from both ends.
\<close>

definition is_space :: "char \<Rightarrow> bool" where
  "is_space c =
     (let n = (of_char c :: nat)
      in (9 \<le> n \<and> n \<le> 13) \<or> (28 \<le> n \<and> n \<le> 32) \<or> n = 133 \<or> n = 160)"

definition py_strip :: "string \<Rightarrow> string" where
  "py_strip s = rev (dropWhile is_space (rev (dropWhile is_space s)))"

text \<open>
  Decoding the body, lines 230 to 234: a \<^verbatim>\<open>UnicodeError\<close> is answered by decoding
  again with \<^verbatim>\<open>errors='ignore'\<close>.
\<close>

definition decode_body :: "'i story_env \<Rightarrow> feed_response \<Rightarrow> string" where
  "decode_body env response =
     (case decode_strict env (resp_content response) (resp_encoding response) of
        Some s \<Rightarrow> s
      | None \<Rightarrow> decode_ignore env (resp_content response) (resp_encoding response))"

text \<open>
  The loop of \<^verbatim>\<open>_fetch_story\<close>: \<open>n\<close> iterations are left, \<open>k\<close> reads have been
  made, and \<open>prev\<close> holds the variables \<^verbatim>\<open>content\<close> and \<^verbatim>\<open>response\<close> of the
  previous iteration.  The result \<open>None\<close> is the \<^verbatim>\<open>UnboundLocalError\<close> of the
  final \<^verbatim>\<open>return\<close> after a loop that never ran.
\<close>

fun fetch_story_loop ::
  "'i story_env \<Rightarrow> nat \<Rightarrow> nat \<Rightarrow> string \<Rightarrow> bool \<Rightarrow> (string \<times> feed_response) option
     \<Rightarrow> event list \<times> (string \<times> string option \<times> feed_response) option" where
  "fetch_story_loop env 0 k url use_proxy prev =
     ([], case prev of None \<Rightarrow> None
                     | Some (content, response) \<Rightarrow> Some (url, Some content, response))"
| "fetch_story_loop env (Suc n) k url use_proxy prev =
     (let req = \<lparr> req_url = url, req_etag = None, req_last_modified = None,
                  req_use_proxy = use_proxy \<rparr>;
          response = async_read env k req;
          url = (case resp_url response of
                   None \<Rightarrow> url
                 | Some u \<Rightarrow> if u \<noteq> [] then u else url)
      in if \<not> (resp_ok response \<and> resp_content response \<noteq> [])
         then ([Read req], Some (url, None, response))
         else (let content = decode_body env response
               in case get_html_redirect_url env content of
                    None \<Rightarrow> ([Read req], Some (url, Some content, response))
                  | Some html_redirect \<Rightarrow>
                      if html_redirect = [] \<or> html_redirect = url
                      then ([Read req], Some (url, Some content, response))
                      else (let (evs, r) = fetch_story_loop env n (Suc k) html_redirect use_proxy
                                             (Some (content, response))
                            in (Read req # evs, r))))"

definition fetch_story_inner ::
  "'i story_env \<Rightarrow> string \<Rightarrow> bool
     \<Rightarrow> event list \<times> (string \<times> string option \<times> feed_response) option" where
  "fetch_story_inner env url use_proxy = fetch_story_loop env 2 0 url use_proxy None"

definition async_fetch_story_impl ::
  "'i story_env \<Rightarrow> int \<Rightarrow> int \<Rightarrow> string \<Rightarrow> bool
     \<Rightarrow> event list \<times> (string \<times> string option \<times> feed_response) option" where
  "async_fetch_story_impl env feed_id offset url use_proxy =
     (let use_proxy = (if dns_is_resolved_url env url then False else use_proxy);
          use_proxy = (use_proxy \<and> async_has_proxy env url)
      in fetch_story_inner env url use_proxy)"

section \<open>Content extraction and acceptance\<close>

definition default_result :: "int \<Rightarrow> int \<Rightarrow> string \<Rightarrow> story_result" where
  "default_result feed_id offset url =
     \<lparr> sr_feed_id = feed_id, sr_offset = offset, sr_url = url, sr_response_status = None,
       sr_use_proxy = None, sr_content = None, sr_summary = None, sr_sentence_count = None,
       sr_accept = None \<rparr>"

text \<open>The values \<^verbatim>\<open>_process_story_webpage\<close> computes from a stripped, non-empty text.\<close>

definition extracted_content :: "'i story_env \<Rightarrow> string \<Rightarrow> string \<Rightarrow> string" where
  "extracted_content env url text =
     process_story_links env (story_readability env (story_html_clean env text)) url"

definition extracted_info :: "'i story_env \<Rightarrow> string \<Rightarrow> string \<Rightarrow> 'i" where
  "extracted_info env url text = story_content_info env (extracted_content env url text)"

definition extracted_text_content :: "'i story_env \<Rightarrow> string \<Rightarrow> string \<Rightarrow> string" where
  "extracted_text_content env url text =
     shorten env (info_text env (extracted_info env url text)) MAX_STORY_CONTENT_LENGTH"

definition extracted_num_sentences :: "'i story_env \<Rightarrow> string \<Rightarrow> string \<Rightarrow> nat" where
  "extracted_num_sentences env url text =
     length (split_sentences env (extracted_text_content env url text))"

definition process_story_webpage ::
  "'i story_env \<Rightarrow> int \<Rightarrow> int \<Rightarrow> string \<Rightarrow> string \<Rightarrow> int option
     \<Rightarrow> event list \<times> story_result" where
  "process_story_webpage env feed_id offset url text0 num_sub_sentences =
     (let DEFAULT_RESULT = default_result feed_id offset url;
          text = py_strip text0
      in if text = [] then ([], DEFAULT_RESULT)
         else (let content = extracted_content env url text;
                   content_info = extracted_info env url text;
                   text_content = extracted_text_content env url text;
                   num_sentences = extracted_num_sentences env url text;
                   content = (if length content > MAX_STORY_CONTENT_LENGTH
                              then text_content else content)
               in if (case num_sub_sentences of
                        None \<Rightarrow> False
                      | Some hint \<Rightarrow>
                          \<not> is_fulltext_content env content_info \<and> int num_sentences \<le> hint)
                  then ([], DEFAULT_RESULT)
                  else (let summary = shorten env text_content MAX_STORY_SUMMARY_LENGTH
                        in if summary = [] then ([], DEFAULT_RESULT)
                           else (let result = DEFAULT_RESULT
                                       \<lparr> sr_content := Some content, sr_summary := Some summary,
                                         sr_sentence_count := Some num_sentences \<rparr>
                                 in ([Sink (UpdateStory result)],
                                     result\<lparr>sr_accept := update_story env result\<rparr>)))))"

text \<open>The size guard of \<^verbatim>\<open>fetch_story\<close>, lines 294 to 299.\<close>

definition limit_story_html :: "'i story_env \<Rightarrow> string \<Rightarrow> string" where
  "limit_story_html env content =
     (if length content \<ge> MAX_STORY_HTML_LENGTH
      then (let content = story_html_clean env content
            in if length content \<ge> MAX_STORY_HTML_LENGTH
               then take MAX_STORY_HTML_LENGTH (story_html_to_text env content)
               else content)
      else content)"

text \<open>
  \<^verbatim>\<open>fetch_story\<close>, from the result of the inner fetch on: the URL the inner fetch
  returns is not read again.
\<close>

definition fetch_story_result ::
  "'i story_env \<Rightarrow> int \<Rightarrow> int \<Rightarrow> string \<Rightarrow> int option
     \<Rightarrow> string \<times> string option \<times> feed_response \<Rightarrow> event list \<times> story_result" where
  "fetch_story_result env feed_id offset url num_sub_sentences res =
     (let (res_url, res_content, response) = res;
          DEFAULT_RESULT = (default_result feed_id offset url)
             \<lparr> sr_response_status := Some (resp_status response),
               sr_use_proxy := Some (resp_use_proxy response) \<rparr>
      in case res_content of
           None \<Rightarrow> ([], DEFAULT_RESULT)
         | Some content \<Rightarrow>
             if content = [] then ([], DEFAULT_RESULT)
             else (let content = limit_story_html env content;
                       (evs, result) = process_story_webpage env feed_id offset url content
                                         num_sub_sentences
                   in (evs, result\<lparr> sr_feed_id := feed_id, sr_offset := offset, sr_url := url,
                                     sr_response_status := Some (resp_status response),
                                     sr_use_proxy := Some (resp_use_proxy response) \<rparr>)))"

definition fetch_story ::
  "'i story_env \<Rightarrow> int \<Rightarrow> int \<Rightarrow> string \<Rightarrow> bool \<Rightarrow> int option
     \<Rightarrow> event list \<times> story_result option" where
  "fetch_story env feed_id offset url use_proxy num_sub_sentences =
     (case async_fetch_story_impl env feed_id offset url use_proxy of
        (evs, None) \<Rightarrow> (evs, None)
      | (evs, Some res) \<Rightarrow>
          (let (evs2, result) = fetch_story_result env feed_id offset url num_sub_sentences res
           in (evs @ evs2, Some result)))"

section \<open>Reading a trace\<close>

fun reads_of :: "event list \<Rightarrow> read_request list" where
  "reads_of [] = []"
| "reads_of (Read r # evs) = r # reads_of evs"
| "reads_of (e # evs) = reads_of evs"

fun sink_calls_of :: "event list \<Rightarrow> sink_call list" where
  "sink_calls_of [] = []"
| "sink_calls_of (Sink c # evs) = c # sink_calls_of evs"
| "sink_calls_of (e # evs) = sink_calls_of evs"

fun is_parse :: "event \<Rightarrow> bool" where
  "is_parse (RawParse r) = True"
| "is_parse ChecksumParse = True"
| "is_parse e = False"

fun is_update_feed :: "sink_call \<Rightarrow> bool" where
  "is_update_feed (UpdateFeed i f r) = True"
| "is_update_feed c = False"

section \<open>A concrete environment\<close>

text \<open>
  A small instance of the collaborators, on which the theorems below are evaluated: one
  URL is DNS-resolved and answers \<^verbatim>\<open>304\<close> without content, one URL is proxy-tagged,
  the parser finds three entries (none behind one URL, which the checksum engine
  rejects), and the story published at time 2 fails validation.
\<close>

definition demo_response :: "string \<Rightarrow> feed_response" where
  "demo_response u =
     (if u = ''http://resolved.example/feed''
      then \<lparr> resp_status = 304, resp_ok = False, resp_content = [], resp_url = Some u,
             resp_etag = None, resp_last_modified = None, resp_encoding = ''utf-8'',
             resp_use_proxy = False \<rparr>
      else \<lparr> resp_status = 200, resp_ok = True, resp_content = [1, 2, 3], resp_url = Some u,
             resp_etag = Some ''e1'', resp_last_modified = None, resp_encoding = ''utf-8'',
             resp_use_proxy = False \<rparr>)"

definition demo_story :: "int \<Rightarrow> story" where
  "demo_story t = \<lparr> story_link = None, story_title = Some ''story'',
                    story_dt_published = t, story_content = None \<rparr>"

definition demo_feed_env :: "(bytes, int) feed_env" where
  "demo_feed_env =
     \<lparr> is_resolved_url = (\<lambda>u. u = ''http://resolved.example/feed''),
       is_use_proxy_url = (\<lambda>u. u = ''http://tagged.example/feed''),
       reader_has_proxy = (\<lambda>u. True),
       reader_read = (\<lambda>k req. demo_response (req_url req)),
       is_need_proxy = (\<lambda>s. s = 403),
       compute_hash_base64 = (\<lambda>b. replicate (length b) CHR ''h''),
       raw_parse = (\<lambda>r. Inr \<lparr> raw_storys = [1, 3, 2], raw_warnings = [] \<rparr>),
       base64_decode = (\<lambda>s. []),
       base64_encode = (\<lambda>b. replicate (length b) CHR ''c''),
       checksum_load = (\<lambda>b. b),
       checksum_dump = (\<lambda>c n. take n c),
       feed_parse = (\<lambda>c raw. if raw_storys raw = [] then Inl (FeedParserError ''no entries'')
                           else Inr \<lparr> fpr_feed = \<lparr> pf_title = Some ''Title'', pf_home_url = None,
                                       pf_author_name = None, pf_icon_url = None,
                                       pf_description = None, pf_dt_updated = None,
                                       pf_version = None \<rparr>,
                                   fpr_storys = raw_storys raw, fpr_checksum = [] \<rparr>),
       get_story_of_feed_entry = (\<lambda>e now. demo_story e),
       clock_now = 0,
       validate_feed_schema = (\<lambda>f. if feed_title f = None
                                    then Inl (Invalid ''title required'' []) else Inr f),
       validate_story_schema = (\<lambda>s. if story_dt_published s = 2
                                     then Inl (Invalid ''bad story'' []) else Inr s),
       exn_str = (\<lambda>e. case e of Invalid m r \<Rightarrow> m | FeedParserError m \<Rightarrow> m),
       finder_find = (\<lambda>u p. ([''found''],
                       Some (demo_response u,
                             \<lparr> raw_storys = (if u = ''http://empty.example/feed'' then []
                                              else [1, 3, 2]),
                               raw_warnings = [] \<rparr>))) \<rparr>"

definition demo_feed :: feed where
  "demo_feed =
     \<lparr> feed_use_proxy = False, feed_url = Some ''http://plain.example/feed'',
       feed_content_length = 3, feed_content_hash_base64 = ''hhh'', feed_etag = Some ''e1'',
       feed_last_modified = None, feed_encoding = ''utf-8'', feed_response_status = 200,
       feed_title = Some ''Title'', feed_link = None, feed_author = None, feed_icon = None,
       feed_description = None, feed_dt_updated = None, feed_version = None,
       feed_storys = [demo_story 3, demo_story 2, demo_story 1],
       feed_checksum_data_base64 = '''', feed_warnings = None \<rparr>"

text \<open>
  A story transport whose every page carries a redirect hint to a page not yet seen: the
  body of the read number \<open>k\<close> has \<open>k + 1\<close> bytes, it decodes to as many letters, and
  the hint appends them to a fixed prefix.  The processors leave the text as it is, except
  that cleaning removes carriage returns; there is one sentence per full stop.
\<close>

definition demo_story_env :: "string story_env" where
  "demo_story_env =
     \<lparr> dns_is_resolved_url = (\<lambda>u. False),
       async_has_proxy = (\<lambda>u. True),
       async_read = (\<lambda>k req. \<lparr> resp_status = 200, resp_ok = True,
                                resp_content = replicate (Suc k) 1, resp_url = Some (req_url req),
                                resp_etag = None, resp_last_modified = None,
                                resp_encoding = ''utf-8'', resp_use_proxy = req_use_proxy req \<rparr>),
       decode_strict = (\<lambda>b enc. Some (replicate (length b) CHR ''x'')),
       decode_ignore = (\<lambda>b enc. []),
       get_html_redirect_url = (\<lambda>c. Some (''http://hop.example/'' @ c)),
       story_html_clean = filter (\<lambda>c. c \<noteq> CHR 0x0D),
       story_html_to_text = (\<lambda>t. t),
       story_readability = (\<lambda>t. t),
       process_story_links = (\<lambda>c u. c),
       story_content_info = (\<lambda>c. c),
       info_text = (\<lambda>i. i),
       is_fulltext_content = (\<lambda>i. False),
       shorten = (\<lambda>t w. take w t),
       split_sentences = (\<lambda>t. replicate (length (filter (\<lambda>c. c = CHR ''.'') t)) ''sentence''),
       update_story = (\<lambda>r. Some ''APPEND'') \<rparr>"

section \<open>Properties of feed synchronisation\<close>


lemma sync_read_only_reads:
  "sink_calls_of (fst (sync_read env rnd url up etag lm rf)) = []"
  "filter is_parse (fst (sync_read env rnd url up etag lm rf)) = []"
  by (simp_all add: sync_read_def Let_def split: prod.splits)

lemma reads_of_append [simp]: "reads_of (xs @ ys) = reads_of xs @ reads_of ys"
  by (induction xs rule: reads_of.induct) simp_all

lemma sink_calls_of_append [simp]: "sink_calls_of (xs @ ys) = sink_calls_of xs @ sink_calls_of ys"
  by (induction xs rule: sink_calls_of.induct) simp_all





lemma sync_read_no_sink:
  "sync_read env rnd url up etag lm rf = (reads, response) \<Longrightarrow> sink_calls_of reads = []"
  using sync_read_only_reads(1) [of env rnd url up etag lm rf] by simp

lemma sync_read_no_parse:
  "sync_read env rnd url up etag lm rf = (reads, response) \<Longrightarrow> filter is_parse reads = []"
  using sync_read_only_reads(2) [of env rnd url up etag lm rf] by simp

text \<open>
  C2.  When the response that \<^verbatim>\<open>sync_feed\<close> processes is not ok or has no content,
  the run ends there: after the reads the only event is one \<^verbatim>\<open>update_feed_info\<close>
  call, with status \<^verbatim>\<open>READY\<close> if the response status is 304 and \<^verbatim>\<open>ERROR\<close>
  otherwise, carrying the response status and no warnings.  No parser runs and no
  \<^verbatim>\<open>update_feed\<close> call is made.
\<close>

theorem sync_feed_failed_fetch_terminal:
  assumes rd: "sync_read env rnd url up etag lm rf = (reads, response)"
    and bad: "\<not> resp_ok response \<or> resp_content response = []"
  shows "sync_feed env rnd fid url up cs ch etag lm rf =
           reads @ [Sink (UpdateFeedInfo fid
                      (Some (if resp_status response = 304 then READY else ERROR))
                      (resp_status response) None)]
         \<and> sink_calls_of (sync_feed env rnd fid url up cs ch etag lm rf) =
             [UpdateFeedInfo fid (Some (if resp_status response = 304 then READY else ERROR))
                (resp_status response) None]
         \<and> filter is_parse (sync_feed env rnd fid url up cs ch etag lm rf) = []
         \<and> filter is_update_feed (sink_calls_of (sync_feed env rnd fid url up cs ch etag lm rf)) = []"
proof -
  have eq: "sync_feed env rnd fid url up cs ch etag lm rf =
           reads @ [Sink (UpdateFeedInfo fid
                      (Some (if resp_status response = 304 then READY else ERROR))
                      (resp_status response) None)]"
    using rd bad by (simp add: sync_feed_def Let_def)
  show ?thesis
    unfolding eq using sync_read_no_sink [OF rd] sync_read_no_parse [OF rd] by simp
qed

theorem sync_feed_failed_fetch_terminal_witness:
  "sync_feed demo_feed_env (9 / 10) 7 ''http://resolved.example/feed'' True None None None None False
     = [Read \<lparr> req_url = ''http://resolved.example/feed'', req_etag = None,
               req_last_modified = None, req_use_proxy = False \<rparr>,
        Sink (UpdateFeedInfo 7 (Some READY) 304 None)]"
proof -
  have rd: "sync_read demo_feed_env (9 / 10) ''http://resolved.example/feed'' True None None False
      = ([Read \<lparr> req_url = ''http://resolved.example/feed'', req_etag = None,
               req_last_modified = None, req_use_proxy = False \<rparr>],
         demo_response ''http://resolved.example/feed'')"
    by (simp add: sync_read_def proxy_decision_def demo_feed_env_def demo_response_def Let_def)
  have bad: "\<not> resp_ok (demo_response ''http://resolved.example/feed'')
             \<or> resp_content (demo_response ''http://resolved.example/feed'') = []"
    by (simp add: demo_response_def)
  show ?thesis
    using sync_feed_failed_fetch_terminal [OF rd bad, of 7 None None]
    by (simp add: demo_response_def)
qed

text \<open>
  C3.  When \<^verbatim>\<open>sync_feed\<close> is not a refresh, the response is ok with content, and the
  hash of that content is the hash the caller supplied, the run ends with one
  \<^verbatim>\<open>update_feed_info\<close> call without a status: no parser and no checksum diff runs, and
  no \<^verbatim>\<open>update_feed\<close> call, hence no story, is sent.
\<close>

theorem sync_feed_same_hash_unchanged:
  assumes rd: "sync_read env rnd url up etag lm False = (reads, response)"
    and good: "resp_ok response" "resp_content response \<noteq> []"
    and same: "ch = Some (compute_hash_base64 env (resp_content response))"
  shows "sync_feed env rnd fid url up cs ch etag lm False =
           reads @ [Sink (UpdateFeedInfo fid None (resp_status response) None)]
         \<and> sink_calls_of (sync_feed env rnd fid url up cs ch etag lm False) =
             [UpdateFeedInfo fid None (resp_status response) None]
         \<and> filter is_parse (sync_feed env rnd fid url up cs ch etag lm False) = []
         \<and> filter is_update_feed (sink_calls_of (sync_feed env rnd fid url up cs ch etag lm False)) = []"
proof -
  have eq: "sync_feed env rnd fid url up cs ch etag lm False =
           reads @ [Sink (UpdateFeedInfo fid None (resp_status response) None)]"
    using rd good same by (simp add: sync_feed_def Let_def)
  show ?thesis
    unfolding eq using sync_read_no_sink [OF rd] sync_read_no_parse [OF rd] by simp
qed

theorem sync_feed_same_hash_unchanged_witness:
  "sync_feed demo_feed_env (9 / 10) 7 ''http://plain.example/feed'' False None (Some ''hhh'')
       None None False
     = [Read \<lparr> req_url = ''http://plain.example/feed'', req_etag = None,
               req_last_modified = None, req_use_proxy = False \<rparr>,
        Sink (UpdateFeedInfo 7 None 200 None)]"
proof -
  have rd: "sync_read demo_feed_env (9 / 10) ''http://plain.example/feed'' False None None False
      = ([Read \<lparr> req_url = ''http://plain.example/feed'', req_etag = None,
               req_last_modified = None, req_use_proxy = False \<rparr>],
         demo_response ''http://plain.example/feed'')"
    by (simp add: sync_read_def proxy_decision_def demo_feed_env_def demo_response_def Let_def)
  have good: "resp_ok (demo_response ''http://plain.example/feed'')"
     "resp_content (demo_response ''http://plain.example/feed'') \<noteq> []"
    by (simp_all add: demo_response_def)
  have same: "Some ''hhh'' = Some (compute_hash_base64 demo_feed_env
                 (resp_content (demo_response ''http://plain.example/feed'')))"
    by (simp add: demo_response_def demo_feed_env_def)
  show ?thesis
    using sync_feed_same_hash_unchanged [OF rd good same, of 7 None]
    by (simp add: demo_response_def)
qed


lemma validate_storys_eq:
  "validate_storys env info ss =
     (map (\<lambda>s. LogStoryInvalid (projl (validate_story_schema env s)) info (story_info_of s))
          (filter (\<lambda>s. isl (validate_story_schema env s)) ss),
      map (\<lambda>s. projr (validate_story_schema env s))
          (filter (\<lambda>s. \<not> isl (validate_story_schema env s)) ss))"
  by (induction ss) (auto split: sum.splits prod.splits)

section \<open>Properties of validation and normalisation\<close>

text \<open>
  C4.  In \<^verbatim>\<open>validate_feed\<close> a story that fails validation costs only itself: when
  the feed validates, the result is the validated feed with the validated forms of the
  stories that pass, in their order, and one log line per story that fails, in their
  order.  When the feed itself is invalid, the exception is raised again with
  \<^verbatim>\<open>, feed=\<close> and the feed's url, or else link, or else title appended to its message.
\<close>

theorem validate_feed_story_isolation:
  "(validate_feed_schema env f = Inr fd \<longrightarrow>
      validate_feed env f =
        (map (\<lambda>s. LogStoryInvalid (projl (validate_story_schema env s)) (feed_info_of f)
                     (story_info_of s))
             (filter (\<lambda>s. isl (validate_story_schema env s)) (feed_storys fd)),
         Inr (fd\<lparr>feed_storys :=
                   map (\<lambda>s. projr (validate_story_schema env s))
                       (filter (\<lambda>s. \<not> isl (validate_story_schema env s)) (feed_storys fd))\<rparr>)))
   \<and> (validate_feed_schema env f = Inl (Invalid msg rest) \<longrightarrow>
      validate_feed env f =
        ([], Inl (Invalid (msg @ '', feed='' @
                     py_format (py_or (py_or (feed_url f) (feed_link f)) (feed_title f))) rest)))"
  by (simp add: validate_feed_def validate_storys_eq feed_info_of_def Let_def)

theorem validate_feed_story_isolation_witness:
  "validate_feed demo_feed_env demo_feed =
     ([LogStoryInvalid (Invalid ''bad story'' []) (Some ''http://plain.example/feed'')
         (Some ''story'')],
      Inr (demo_feed\<lparr>feed_storys := [demo_story 3, demo_story 1]\<rparr>))
   \<and> validate_feed demo_feed_env (demo_feed\<lparr>feed_title := None\<rparr>) =
     ([], Inl (Invalid ''title required, feed=http://plain.example/feed'' []))"
proof -
  have a: "validate_feed_schema demo_feed_env demo_feed = Inr demo_feed"
    by (simp add: demo_feed_env_def demo_feed_def)
  have b: "validate_feed_schema demo_feed_env (demo_feed\<lparr>feed_title := None\<rparr>) =
             Inl (Invalid ''title required'' [])"
    by (simp add: demo_feed_env_def demo_feed_def)
  show ?thesis
    using validate_feed_story_isolation [of demo_feed_env demo_feed demo_feed "''''" "[]"]
          validate_feed_story_isolation [of demo_feed_env "demo_feed\<lparr>feed_title := None\<rparr>"
             demo_feed "''title required''" "[]"]
          a b
    by (simp add: demo_feed_env_def demo_feed_def demo_story_def story_info_of_def
          feed_info_of_def py_or_def)
qed

lemma py_sorted_reverse_desc:
  "sorted_wrt (\<lambda>a b. key a \<ge> key b) (py_sorted key True xs)"
proof -
  have "sorted (map key (sort_key key (rev xs)))" by simp
  then have "sorted_wrt (\<lambda>a b. key a \<le> key b) (sort_key key (rev xs))"
    by (simp add: sorted_map)
  then show ?thesis
    by (simp add: py_sorted_def sorted_wrt_rev)
qed

text \<open>
  C5.  Whatever the order of the entries, the stories \<^verbatim>\<open>_get_storys\<close> returns are
  in non-increasing order of \<^verbatim>\<open>dt_published\<close>, and they are the stories of the
  entries, each as often as it occurs.
\<close>

theorem get_storys_sorted_descending:
  "sorted_wrt (\<lambda>a b. story_dt_published a \<ge> story_dt_published b) (get_storys env entries)
   \<and> mset (get_storys env entries) =
       mset (map (\<lambda>data. get_story_of_feed_entry env data (clock_now env)) entries)"
proof
  show "sorted_wrt (\<lambda>a b. story_dt_published a \<ge> story_dt_published b) (get_storys env entries)"
    by (simp add: get_storys_def Let_def py_sorted_reverse_desc)
  show "mset (get_storys env entries) =
       mset (map (\<lambda>data. get_story_of_feed_entry env data (clock_now env)) entries)"
    by (simp add: get_storys_def Let_def py_sorted_def)
qed

lemma demo_get_storys: "get_storys demo_feed_env [1, 3, 2] = [demo_story 3, demo_story 2, demo_story 1]"
  by (simp add: get_storys_def py_sorted_def demo_feed_env_def demo_story_def)

lemma validate_storys_no_sink:
  "validate_storys env info ss = (evs, storys) \<Longrightarrow> sink_calls_of evs = []"
  by (induction ss arbitrary: evs storys) (auto split: sum.splits prod.splits)

lemma validate_feed_no_sink: "validate_feed env f = (evs, r) \<Longrightarrow> sink_calls_of evs = []"
  by (auto simp add: validate_feed_def Let_def split: sum.splits prod.splits
        dest: validate_storys_no_sink)

lemma parse_found_no_sink:
  "parse_found env fnd cs rf = (evs, r) \<Longrightarrow> sink_calls_of evs = []"
  by (auto simp add: parse_found_def Let_def split: sum.splits prod.splits
        dest: validate_feed_no_sink)

section \<open>Properties of feed discovery\<close>

text \<open>
  C9.  \<^verbatim>\<open>find_feed\<close> calls the sink exactly twice: its first event is the progress
  call with status \<^verbatim>\<open>UPDATING\<close>, before the finder runs, and its last event is the
  one \<^verbatim>\<open>save_feed_creation_result\<close> call.  When normalising what the finder found
  raises \<^verbatim>\<open>Invalid\<close> or \<^verbatim>\<open>FeedParserError\<close>, the terminal call carries no feed
  and the finder's messages followed by \<^verbatim>\<open>invalid feed: \<close> and the exception text.
\<close>

theorem find_feed_two_sink_calls:
  "\<exists>mid msgs f.
     find_feed env cid url =
       Sink (UpdateFeedCreationStatus cid UPDATING) # Find url (is_use_proxy_url env url) # mid
         @ [Sink (SaveFeedCreationResult cid msgs f)]
     \<and> sink_calls_of (find_feed env cid url) =
         [UpdateFeedCreationStatus cid UPDATING, SaveFeedCreationResult cid msgs f]
     \<and> (\<forall>fnd evs ex.
           snd (finder_find env url (is_use_proxy_url env url)) = Some fnd
           \<and> parse_found env fnd None False = (evs, Inl ex) \<longrightarrow>
           f = None
           \<and> msgs = fst (finder_find env url (is_use_proxy_url env url))
                      @ [''invalid feed: '' @ exn_str env ex])"
proof (cases "finder_find env url (is_use_proxy_url env url)")
  case (Pair messages found)
  show ?thesis
  proof (cases found)
    case None
    with Pair show ?thesis by (simp add: find_feed_def Let_def)
  next
    case (Some fnd)
    obtain evs r where pf: "parse_found env fnd None False = (evs, r)"
      by (cases "parse_found env fnd None False")
    have ns: "sink_calls_of evs = []"
      using parse_found_no_sink [OF pf] .
    show ?thesis
    proof (cases r)
      case (Inl ex)
      with Pair Some pf ns show ?thesis by (auto simp add: find_feed_def Let_def)
    next
      case (Inr f)
      with Pair Some pf ns show ?thesis by (auto simp add: find_feed_def Let_def)
    qed
  qed
qed

theorem find_feed_two_sink_calls_witness:
  "find_feed demo_feed_env 5 ''http://empty.example/feed'' =
     [Sink (UpdateFeedCreationStatus 5 UPDATING), Find ''http://empty.example/feed'' False,
      ChecksumParse,
      Sink (SaveFeedCreationResult 5 [''found'', ''invalid feed: no entries''] None)]"
  using find_feed_two_sink_calls [of demo_feed_env 5 "''http://empty.example/feed''"]
  by (simp add: find_feed_def parse_found_def demo_feed_env_def Let_def)


section \<open>Properties of the story pipeline\<close>

text \<open>
  The loop with at least one iteration left returns a result, reads at least once and at
  most once per iteration, and returns the response of its last read with its content.
\<close>

lemma fetch_story_loop_spec:
  "\<exists>evs u c r. fetch_story_loop env (Suc n) k url up prev = (evs, Some (u, c, r))
     \<and> evs = map Read (reads_of evs)
     \<and> 1 \<le> length evs \<and> length evs \<le> Suc n
     \<and> r = async_read env (k + length evs - 1) (last (reads_of evs))
     \<and> (c = None \<or> c = Some (decode_body env r))
     \<and> (c = None \<longleftrightarrow> \<not> (resp_ok r \<and> resp_content r \<noteq> []))"
proof (induction n arbitrary: k url prev)
  case 0
  show ?case
    by (auto simp add: Let_def split: option.splits)
next
  case (Suc n)
  let ?req = "\<lparr> req_url = url, req_etag = None, req_last_modified = None, req_use_proxy = up \<rparr>"
  let ?resp = "async_read env k ?req"
  show ?case
  proof (cases "resp_ok ?resp \<and> resp_content ?resp \<noteq> []")
    case False
    then show ?thesis by (auto simp add: Let_def)
  next
    case ok: True
    show ?thesis
    proof (cases "get_html_redirect_url env (decode_body env ?resp)")
      case None
      with ok show ?thesis by (auto simp add: Let_def)
    next
      case (Some h)
      let ?url1 = "case resp_url ?resp of None \<Rightarrow> url | Some u \<Rightarrow> if u \<noteq> [] then u else url"
      show ?thesis
      proof (cases "h = [] \<or> h = ?url1")
        case True
        with ok Some show ?thesis by (auto simp add: Let_def)
      next
        case False
        obtain evs u c r where ih:
          "fetch_story_loop env (Suc n) (Suc k) h up (Some (decode_body env ?resp, ?resp))
             = (evs, Some (u, c, r))"
          "evs = map Read (reads_of evs)" "1 \<le> length evs" "length evs \<le> Suc n"
          "r = async_read env (Suc k + length evs - 1) (last (reads_of evs))"
          "c = None \<or> c = Some (decode_body env r)"
          "c = None \<longleftrightarrow> \<not> (resp_ok r \<and> resp_content r \<noteq> [])"
          using Suc.IH [of "Suc k" h "Some (decode_body env ?resp, ?resp)"] by blast
        have ne: "reads_of evs \<noteq> []" using ih(2,3) by (cases evs) auto
        have step: "fetch_story_loop env (Suc (Suc n)) k url up prev
                      = (Read ?req # evs, Some (u, c, r))"
          using ok Some False ih(1)
          by (simp add: Let_def)
        show ?thesis
          unfolding step using ih(2-) ne by auto
      qed
    qed
  qed
qed


lemma fetch_story_inner_reads_le_2:
  "length (reads_of (fst (fetch_story_inner env url up))) \<le> 2"
proof -
  obtain evs u c r where
    "fetch_story_loop env (Suc 1) 0 url up None = (evs, Some (u, c, r))"
    "evs = map Read (reads_of evs)" "length evs \<le> Suc 1"
    using fetch_story_loop_spec [of env 1 0 url up None] by blast
  then show ?thesis
    by (metis fetch_story_inner_def fst_conv length_map Suc_1 numeral_2_eq_2)
qed

lemma fetch_story_redirect_bounded_aux:
  "\<exists>evs u c r. fetch_story_inner env url up = (evs, Some (u, c, r))"
  using fetch_story_loop_spec [of env 1 0 url up None]
  by (auto simp add: fetch_story_inner_def numeral_2_eq_2)

text \<open>
  C7.  The redirect loop of \<^verbatim>\<open>_fetch_story\<close> always returns, for every transport
  and every redirect hint, after at least one and at most three transport reads (the
  loop body runs at most twice, and each run reads once, so the reads are in fact at most
  two).  It returns the response of its last read, and the decoded body of that
  response when it is ok and not empty, no content otherwise.
\<close>

theorem fetch_story_redirect_bounded:
  "\<exists>evs u c r. fetch_story_inner env url up = (evs, Some (u, c, r))
     \<and> evs = map Read (reads_of evs)
     \<and> 1 \<le> length (reads_of evs) \<and> length (reads_of evs) \<le> 3
     \<and> r = async_read env (length (reads_of evs) - 1) (last (reads_of evs))
     \<and> c = (if resp_ok r \<and> resp_content r \<noteq> [] then Some (decode_body env r) else None)"
proof -
  obtain evs u c r where h:
    "fetch_story_loop env (Suc 1) 0 url up None = (evs, Some (u, c, r))"
    "evs = map Read (reads_of evs)" "1 \<le> length evs" "length evs \<le> Suc 1"
    "r = async_read env (0 + length evs - 1) (last (reads_of evs))"
    "c = None \<or> c = Some (decode_body env r)"
    "c = None \<longleftrightarrow> \<not> (resp_ok r \<and> resp_content r \<noteq> [])"
    using fetch_story_loop_spec [of env 1 0 url up None] by blast
  have len: "length (reads_of evs) = length evs"
    using h(2) by (metis length_map)
  have inner: "fetch_story_inner env url up = (evs, Some (u, c, r))"
    using h(1) by (simp add: fetch_story_inner_def numeral_2_eq_2)
  have le2: "length (reads_of evs) \<le> 2"
    using fetch_story_inner_reads_le_2 [of env url up] inner by simp
  have "c = (if resp_ok r \<and> resp_content r \<noteq> [] then Some (decode_body env r) else None)"
    using h(6,7) by auto
  with inner h(2,3,5) len le2 show ?thesis by auto
qed

lemma fetch_story_always_redirect_two_reads:
  "fst (fetch_story_inner demo_story_env ''http://start.example/'' False) =
     [Read \<lparr> req_url = ''http://start.example/'', req_etag = None, req_last_modified = None,
              req_use_proxy = False \<rparr>,
      Read \<lparr> req_url = ''http://hop.example/x'', req_etag = None, req_last_modified = None,
              req_use_proxy = False \<rparr>]"
  by (simp add: fetch_story_inner_def numeral_2_eq_2 demo_story_env_def decode_body_def Let_def)


lemma process_story_webpage_url:
  "sr_url (snd (process_story_webpage env fid off url text nss)) = url"
  by (simp add: process_story_webpage_def default_result_def Let_def)

text \<open>
  C10.  \<^verbatim>\<open>fetch_story\<close> always returns a result, and its \<^verbatim>\<open>url\<close> is the URL the
  caller passed, like its feed id and offset.  The URL that the inner fetch returns is
  dropped: the result, content and rewritten links included, is the same for any two
  such URLs.
\<close>

theorem fetch_story_reports_input_url:
  "(\<exists>evs result. fetch_story env fid off url up nss = (evs, Some result)
       \<and> sr_url result = url \<and> sr_feed_id result = fid \<and> sr_offset result = off)
   \<and> fetch_story_result env fid off url nss (u1, c, r) =
       fetch_story_result env fid off url nss (u2, c, r)
   \<and> sr_url (snd (fetch_story_result env fid off url nss (u1, c, r))) = url"
proof -
  obtain evs u c0 r0 where inner:
    "fetch_story_inner env url
       ((if dns_is_resolved_url env url then False else up) \<and> async_has_proxy env url)
       = (evs, Some (u, c0, r0))"
    using fetch_story_redirect_bounded_aux by blast
  have res: "\<And>u c r. sr_url (snd (fetch_story_result env fid off url nss (u, c, r))) = url
      \<and> sr_feed_id (snd (fetch_story_result env fid off url nss (u, c, r))) = fid
      \<and> sr_offset (snd (fetch_story_result env fid off url nss (u, c, r))) = off"
    by (simp add: fetch_story_result_def default_result_def Let_def
          split: option.splits prod.splits)
  have a: "\<exists>evs result. fetch_story env fid off url up nss = (evs, Some result)
       \<and> sr_url result = url \<and> sr_feed_id result = fid \<and> sr_offset result = off"
    using inner res [of u c0 r0]
    by (auto simp add: fetch_story_def async_fetch_story_impl_def Let_def split: prod.splits)
  have b: "fetch_story_result env fid off url nss (u1, c, r) =
       fetch_story_result env fid off url nss (u2, c, r)"
    by (simp add: fetch_story_result_def)
  from a b res [of u1 c r] show ?thesis by blast
qed


text \<open>
  C6.  When a hint sentence count is given, the extracted content is not classified as
  full text, and the number of extracted sentences is at most the hint,
  \<^verbatim>\<open>_process_story_webpage\<close> returns the default result, with no content, summary or
  sentence count, and calls no sink; \<^verbatim>\<open>fetch_story\<close> then returns that result with
  the response status and proxy flag added.
\<close>

theorem process_story_webpage_rejects_short:
  assumes hint: "nss = Some hint"
    and nofull: "\<not> is_fulltext_content env (extracted_info env url (py_strip text))"
    and short: "int (extracted_num_sentences env url (py_strip text)) \<le> hint"
  shows "process_story_webpage env fid off url text nss = ([], default_result fid off url)
         \<and> sr_content (snd (process_story_webpage env fid off url text nss)) = None
         \<and> sr_summary (snd (process_story_webpage env fid off url text nss)) = None
         \<and> sr_sentence_count (snd (process_story_webpage env fid off url text nss)) = None
         \<and> (\<forall>c u r. c \<noteq> [] \<and> text = limit_story_html env c \<longrightarrow>
               fetch_story_result env fid off url nss (u, Some c, r) =
                 ([], (default_result fid off url)
                        \<lparr> sr_response_status := Some (resp_status r),
                          sr_use_proxy := Some (resp_use_proxy r) \<rparr>))"
proof -
  have eq: "process_story_webpage env fid off url text nss = ([], default_result fid off url)"
    using hint nofull short by (simp add: process_story_webpage_def Let_def)
  have res: "fetch_story_result env fid off url nss (u, Some c, r) =
                 ([], (default_result fid off url)
                        \<lparr> sr_response_status := Some (resp_status r),
                          sr_use_proxy := Some (resp_use_proxy r) \<rparr>)"
    if "c \<noteq> []" "text = limit_story_html env c" for c u r
  proof -
    have "process_story_webpage env fid off url (limit_story_html env c) nss =
            ([], default_result fid off url)"
      using eq that(2) by simp
    with that(1) show ?thesis
      by (simp add: fetch_story_result_def default_result_def Let_def)
  qed
  show ?thesis
    unfolding eq using res by (simp add: default_result_def)
qed

lemma demo_strip: "py_strip ''One. Two.'' = ''One. Two.''"
  by (simp add: py_strip_def is_space_def)

theorem process_story_webpage_rejects_short_witness:
  "process_story_webpage demo_story_env 1 0 ''http://start.example/'' ''One. Two.'' (Some 2)
     = ([], default_result 1 0 ''http://start.example/'')"
proof -
  have nofull: "\<not> is_fulltext_content demo_story_env
                   (extracted_info demo_story_env ''http://start.example/'' (py_strip ''One. Two.''))"
    by (simp add: demo_story_env_def)
  have short: "int (extracted_num_sentences demo_story_env ''http://start.example/''
                  (py_strip ''One. Two.'')) \<le> 2"
    by (simp add: demo_strip extracted_num_sentences_def extracted_text_content_def
          extracted_info_def extracted_content_def demo_story_env_def
          MAX_STORY_CONTENT_LENGTH_def)
  show ?thesis
    using process_story_webpage_rejects_short [OF refl nofull short, of 1 0] by simp
qed

lemma demo_accepts_longer:
  "process_story_webpage demo_story_env 1 0 ''http://start.example/'' ''One. Two.'' (Some 1)
     = ([Sink (UpdateStory ((default_result 1 0 ''http://start.example/'')
                 \<lparr> sr_content := Some ''One. Two.'', sr_summary := Some ''One. Two.'',
                   sr_sentence_count := Some 2 \<rparr>))],
        (default_result 1 0 ''http://start.example/'')
                 \<lparr> sr_content := Some ''One. Two.'', sr_summary := Some ''One. Two.'',
                   sr_sentence_count := Some 2, sr_accept := Some ''APPEND'' \<rparr>)"
  by (simp add: process_story_webpage_def demo_strip extracted_num_sentences_def
        extracted_text_content_def extracted_info_def extracted_content_def demo_story_env_def
        MAX_STORY_CONTENT_LENGTH_def MAX_STORY_SUMMARY_LENGTH_def Let_def)


lemma limit_story_html_le: "length (limit_story_html env content) \<le> MAX_STORY_HTML_LENGTH"
  by (simp add: limit_story_html_def Let_def)

text \<open>
  C8, as stated, fails.  The ceiling for story HTML is not 5,000,000: a text of 5,000,000 carriage returns, which
  cleaning would empty, passes the size guard untouched, and a text of 5,100,000
  characters leaves the guard longer than 5,000,000.
\<close>

theorem story_size_ceilings_counterexample:
  "MAX_STORY_HTML_LENGTH \<noteq> 5000000
   \<and> limit_story_html demo_story_env (replicate 5000000 (CHR 0x0D)) = replicate 5000000 (CHR 0x0D)
   \<and> story_html_clean demo_story_env (replicate 5000000 (CHR 0x0D)) = []
   \<and> \<not> length (limit_story_html demo_story_env (replicate 5100000 (CHR 0x0D))) \<le> 5000000"
  by (simp add: MAX_STORY_HTML_LENGTH_def limit_story_html_def demo_story_env_def)

text \<open>
  C8, as amended.  The ceilings are 5,120,000 for story HTML, 1,024,000 for extracted
  content and 300 for the summary, counted in characters of the string.  What leaves the
  size guard of \<^verbatim>\<open>fetch_story\<close> is never longer than 5,120,000, and a shorter text
  passes unchanged.  Provided \<^verbatim>\<open>shorten\<close> never returns more than the width it is
  given, reported content is never longer than 1,024,000, it is the shortened plain text
  when the extracted content is longer than that, and a reported summary is never longer
  than 300.
\<close>

theorem story_size_ceilings:
  assumes short: "\<forall>t w. length (shorten env t w) \<le> w"
  shows "MAX_STORY_HTML_LENGTH = 5120000
         \<and> MAX_STORY_CONTENT_LENGTH = 1024000
         \<and> MAX_STORY_SUMMARY_LENGTH = 300
         \<and> length (limit_story_html env content) \<le> 5120000
         \<and> (length content < 5120000 \<longrightarrow> limit_story_html env content = content)
         \<and> (\<forall>c. sr_content (snd (process_story_webpage env fid off url text nss)) = Some c \<longrightarrow>
               length c \<le> 1024000
               \<and> c = (if length (extracted_content env url (py_strip text)) > 1024000
                      then shorten env (info_text env (extracted_info env url (py_strip text)))
                             1024000
                      else extracted_content env url (py_strip text)))
         \<and> (\<forall>s. sr_summary (snd (process_story_webpage env fid off url text nss)) = Some s \<longrightarrow>
               length s \<le> 300)"
proof -
  have h: "MAX_STORY_HTML_LENGTH = 5120000" by (simp add: MAX_STORY_HTML_LENGTH_def)
  have c: "MAX_STORY_CONTENT_LENGTH = 1024000" by (simp add: MAX_STORY_CONTENT_LENGTH_def)
  have m: "MAX_STORY_SUMMARY_LENGTH = 300" by (simp add: MAX_STORY_SUMMARY_LENGTH_def)
  have l: "length (limit_story_html env content) \<le> 5120000"
    using limit_story_html_le [of env content] h by simp
  have u: "length content < 5120000 \<longrightarrow> limit_story_html env content = content"
    by (simp add: limit_story_html_def h)
  have tc: "length (extracted_text_content env url (py_strip text)) \<le> 1024000"
    using short by (simp add: extracted_text_content_def c)
  have sm: "length (shorten env (extracted_text_content env url (py_strip text)) 300) \<le> 300"
    using short by simp
  have pc: "\<forall>c. sr_content (snd (process_story_webpage env fid off url text nss)) = Some c \<longrightarrow>
               length c \<le> 1024000
               \<and> c = (if length (extracted_content env url (py_strip text)) > 1024000
                      then shorten env (info_text env (extracted_info env url (py_strip text)))
                             1024000
                      else extracted_content env url (py_strip text))"
    using tc
    by (auto simp add: process_story_webpage_def default_result_def Let_def c
          extracted_text_content_def split: if_splits option.splits)
  have ps: "\<forall>s. sr_summary (snd (process_story_webpage env fid off url text nss)) = Some s \<longrightarrow>
               length s \<le> 300"
    using sm
    by (auto simp add: process_story_webpage_def default_result_def Let_def m
          split: if_splits option.splits)
  from h c m l u pc ps show ?thesis by blast
qed

theorem story_size_ceilings_witness:
  "(\<forall>t w. length (shorten demo_story_env t w) \<le> w)
   \<and> length (limit_story_html demo_story_env (replicate 6000000 (CHR ''a''))) \<le> 5120000
   \<and> sr_content (snd (process_story_webpage demo_story_env 1 0 ''http://start.example/''
                        ''One. Two.'' None)) = Some ''One. Two.''
   \<and> length ''One. Two.'' \<le> (1024000::nat)"
proof -
  have short: "\<forall>t w. length (shorten demo_story_env t w) \<le> w"
    by (simp add: demo_story_env_def)
  have run: "sr_content (snd (process_story_webpage demo_story_env 1 0 ''http://start.example/''
                        ''One. Two.'' None)) = Some ''One. Two.''"
    by (simp add: process_story_webpage_def demo_strip extracted_num_sentences_def
        extracted_text_content_def extracted_info_def extracted_content_def demo_story_env_def
        MAX_STORY_CONTENT_LENGTH_def MAX_STORY_SUMMARY_LENGTH_def default_result_def Let_def)
  show ?thesis
    using story_size_ceilings [OF short, of "replicate 6000000 (CHR ''a'')" 1 0
            "''http://start.example/''" "''One. Two.''" None] short run
    by simp
qed


lemma fetch_story_redirected_keeps_input_url:
  "snd (fetch_story_inner demo_story_env ''http://start.example/'' False) =
     Some (''http://hop.example/xx'', Some ''xx'',
           async_read demo_story_env 1
             \<lparr> req_url = ''http://hop.example/x'', req_etag = None, req_last_modified = None,
               req_use_proxy = False \<rparr>)
   \<and> map_option sr_url (snd (fetch_story demo_story_env 1 0 ''http://start.example/'' False None))
       = Some ''http://start.example/''"
proof -
  have a: "fetch_story_inner demo_story_env ''http://start.example/'' False =
     ([Read \<lparr> req_url = ''http://start.example/'', req_etag = None, req_last_modified = None,
              req_use_proxy = False \<rparr>,
       Read \<lparr> req_url = ''http://hop.example/x'', req_etag = None, req_last_modified = None,
              req_use_proxy = False \<rparr>],
      Some (''http://hop.example/xx'', Some ''xx'',
           async_read demo_story_env 1
             \<lparr> req_url = ''http://hop.example/x'', req_etag = None, req_last_modified = None,
               req_use_proxy = False \<rparr>))"
    by (simp add: fetch_story_inner_def numeral_2_eq_2 demo_story_env_def decode_body_def Let_def)
  have b: "dns_is_resolved_url demo_story_env ''http://start.example/'' = False"
    by (simp add: demo_story_env_def)
  show ?thesis
    unfolding a
    by (simp add: fetch_story_def async_fetch_story_impl_def a b fetch_story_result_def
          process_story_webpage_url Let_def split: prod.splits)
qed


end
